theory Spec2Isabelle
  imports Complex_Main "HOL-Library.Signed_Division"
begin

section \<open>Mesh coarsening by sampling (ablastr/coarsen/sample.H)\<close>

text \<open>
  \<^verbatim>\<open>amrex::Real\<close> is modelled by the real numbers: rounding of the floating point
  products and sums is not part of the model. C++ \<^verbatim>\<open>int\<close> is modelled by the
  unbounded integers (signed overflow is undefined in the source); its division truncates
  towards zero, which is \<open>sdiv\<close>.

  An \<^verbatim>\<open>amrex::Array4\<close> is read through \<^verbatim>\<open>arr(i,j,k,n)\<close>. The source
  does not check the indices against the array's box, so the accessor is a total function
  of the four indices; a field that lives on a finite box is written with an explicit
  value outside the box. A \<^verbatim>\<open>GpuArray\<close> of three \<^verbatim>\<open>int\<close> is read through \<^verbatim>\<open>a[l]\<close> for
  \<open>l = 0, 1, 2\<close>.
\<close>

type_synonym Array4 = "int \<Rightarrow> int \<Rightarrow> int \<Rightarrow> int \<Rightarrow> real"
type_synonym GpuArray3 = "nat \<Rightarrow> int"

text \<open>
  The first loop of \<^verbatim>\<open>Interp\<close> fills \<^verbatim>\<open>np[l]\<close>, the second fills
  \<^verbatim>\<open>idx_min[l]\<close>; each entry depends on \<open>l\<close> alone, so each loop body is a
  function of \<open>l\<close>.
\<close>

definition Interp_np :: "GpuArray3 \<Rightarrow> GpuArray3 \<Rightarrow> GpuArray3 \<Rightarrow> nat \<Rightarrow> int" where
  "Interp_np sf sc cr l =
     (if cr l = 1 then 1 + \<bar>sf l - sc l\<bar>
      else 2 - sf l)"

definition Interp_idx_min ::
  "GpuArray3 \<Rightarrow> GpuArray3 \<Rightarrow> GpuArray3 \<Rightarrow> (nat \<Rightarrow> int) \<Rightarrow> nat \<Rightarrow> int" where
  "Interp_idx_min sf sc cr ic l =
     (if cr l = 1 then ic l - sc l * (1 - sf l)
      else ic l * cr l + (cr l sdiv 2) * (1 - sc l) - (1 - sf l))"

text \<open>
  The three nested \<^verbatim>\<open>for\<close> loops, innermost first. Each takes the loop counter and
  the accumulator \<open>c\<close> and returns the accumulator at loop exit.
\<close>

function Interp_loop_i ::
  "Array4 \<Rightarrow> real \<Rightarrow> real \<Rightarrow> real \<Rightarrow> int \<Rightarrow> int \<Rightarrow> int \<Rightarrow> int \<Rightarrow> int
     \<Rightarrow> int \<Rightarrow> int \<Rightarrow> int \<Rightarrow> real \<Rightarrow> real" where
  "Interp_loop_i arr_src wx wy wz imin jmin kmin icomp numx jref kref iref c =
     (if iref < numx
      then Interp_loop_i arr_src wx wy wz imin jmin kmin icomp numx jref kref (iref + 1)
             (c + wx * wy * wz * arr_src (imin + iref) (jmin + jref) (kmin + kref) icomp)
      else c)"
  by pat_completeness auto
termination
  by (relation "measure (\<lambda>(arr_src, wx, wy, wz, imin, jmin, kmin, icomp, numx, jref, kref, iref, c).
                   nat (numx - iref))") auto

declare Interp_loop_i.simps [simp del]

function Interp_loop_j ::
  "Array4 \<Rightarrow> real \<Rightarrow> real \<Rightarrow> real \<Rightarrow> int \<Rightarrow> int \<Rightarrow> int \<Rightarrow> int \<Rightarrow> int \<Rightarrow> int
     \<Rightarrow> int \<Rightarrow> int \<Rightarrow> real \<Rightarrow> real" where
  "Interp_loop_j arr_src wx wy wz imin jmin kmin icomp numx numy kref jref c =
     (if jref < numy
      then Interp_loop_j arr_src wx wy wz imin jmin kmin icomp numx numy kref (jref + 1)
             (Interp_loop_i arr_src wx wy wz imin jmin kmin icomp numx jref kref 0 c)
      else c)"
  by pat_completeness auto
termination
  by (relation "measure (\<lambda>(arr_src, wx, wy, wz, imin, jmin, kmin, icomp, numx, numy, kref, jref, c).
                   nat (numy - jref))") auto

declare Interp_loop_j.simps [simp del]

function Interp_loop_k ::
  "Array4 \<Rightarrow> real \<Rightarrow> real \<Rightarrow> real \<Rightarrow> int \<Rightarrow> int \<Rightarrow> int \<Rightarrow> int \<Rightarrow> int \<Rightarrow> int
     \<Rightarrow> int \<Rightarrow> int \<Rightarrow> real \<Rightarrow> real" where
  "Interp_loop_k arr_src wx wy wz imin jmin kmin icomp numx numy numz kref c =
     (if kref < numz
      then Interp_loop_k arr_src wx wy wz imin jmin kmin icomp numx numy numz (kref + 1)
             (Interp_loop_j arr_src wx wy wz imin jmin kmin icomp numx numy kref 0 c)
      else c)"
  by pat_completeness auto
termination
  by (relation "measure (\<lambda>(arr_src, wx, wy, wz, imin, jmin, kmin, icomp, numx, numy, numz, kref, c).
                   nat (numz - kref))") auto

declare Interp_loop_k.simps [simp del]

definition Interp ::
  "Array4 \<Rightarrow> GpuArray3 \<Rightarrow> GpuArray3 \<Rightarrow> GpuArray3 \<Rightarrow> int \<Rightarrow> int \<Rightarrow> int \<Rightarrow> int \<Rightarrow> real" where
  "Interp arr_src sf sc cr i j k icomp =
     (let ic = (\<lambda>l. if l = 0 then i else if l = 1 then j else k);
          np = Interp_np sf sc cr;
          idx_min = Interp_idx_min sf sc cr ic;
          numx = np 0; numy = np 1; numz = np 2;
          imin = idx_min 0; jmin = idx_min 1; kmin = idx_min 2;
          wx = 1 / real_of_int numx;
          wy = 1 / real_of_int numy;
          wz = 1 / real_of_int numz
      in Interp_loop_k arr_src wx wy wz imin jmin kmin icomp numx numy numz 0 0)"


subsection \<open>The averaging rule in the words of the specification\<close>

text \<open>
  The specification gives the number of sampled points and the first sampled index per
  axis, with \<open>floor(cr/2)\<close> for the half ratio, and the result as the mean over the
  index box with the weight \<open>1/(np[0]*np[1]*np[2])\<close> applied per point. These three
  definitions follow the specification, not the source; the source is compared with them.
\<close>

definition spec_np :: "int \<Rightarrow> int \<Rightarrow> int \<Rightarrow> int" where
  "spec_np sf_l sc_l cr_l = (if cr_l = 1 then 1 + \<bar>sf_l - sc_l\<bar> else 2 - sf_l)"

definition spec_idx_min :: "int \<Rightarrow> int \<Rightarrow> int \<Rightarrow> int \<Rightarrow> int" where
  "spec_idx_min sf_l sc_l cr_l ic_l =
     (if cr_l = 1 then ic_l - sc_l * (1 - sf_l)
      else ic_l * cr_l + \<lfloor>real_of_int cr_l / 2\<rfloor> * (1 - sc_l) - (1 - sf_l))"

definition spec_box_mean ::
  "Array4 \<Rightarrow> GpuArray3 \<Rightarrow> GpuArray3 \<Rightarrow> GpuArray3 \<Rightarrow> int \<Rightarrow> int \<Rightarrow> int \<Rightarrow> int \<Rightarrow> real" where
  "spec_box_mean arr_src sf sc cr i j k icomp =
     (let nx = spec_np (sf 0) (sc 0) (cr 0);
          ny = spec_np (sf 1) (sc 1) (cr 1);
          nz = spec_np (sf 2) (sc 2) (cr 2);
          i0 = spec_idx_min (sf 0) (sc 0) (cr 0) i;
          j0 = spec_idx_min (sf 1) (sc 1) (cr 1) j;
          k0 = spec_idx_min (sf 2) (sc 2) (cr 2) k
      in (\<Sum>kk = k0..<k0 + nz. \<Sum>jj = j0..<j0 + ny. \<Sum>ii = i0..<i0 + nx.
            1 / real_of_int (nx * ny * nz) * arr_src ii jj kk icomp))"

subsection \<open>Example fields\<close>


text \<open>A field whose value encodes its index.\<close>

definition index_field :: Array4 where
  "index_field = (\<lambda>ii jj kk icomp. real_of_int (ii + 10 * jj + 100 * kk))"

text \<open>A field that is 1 on the plane \<open>ii = i0\<close> and 0 elsewhere: it shows the weight of that plane.\<close>

definition plane_field :: "int \<Rightarrow> Array4" where
  "plane_field i0 = (\<lambda>ii jj kk icomp. if ii = i0 then 1 else 0)"

definition GpuArray3_of :: "int \<Rightarrow> int \<Rightarrow> int \<Rightarrow> GpuArray3" where
  "GpuArray3_of a b c = (\<lambda>l. if l = 0 then a else if l = 1 then b else c)"

section \<open>Particle filter functors (Particles/Filter/FilterFunctors.H)\<close>

subsection \<open>Types declared outside the file\<close>

text \<open>
  Modelled from the spec: \<^verbatim>\<open>SuperParticleType\<close> (declared by the particle container)
  is a particle with an integer identity \<^verbatim>\<open>p.id()\<close>, a position \<^verbatim>\<open>p.pos(d)\<close> per
  axis and real attribute slots \<^verbatim>\<open>p.rdata(n)\<close>, of which \<^verbatim>\<open>PIdx::ux\<close>,
  \<^verbatim>\<open>PIdx::uy\<close>, \<^verbatim>\<open>PIdx::uz\<close> hold the momentum components. The identity is an
  unbounded integer here.
\<close>

datatype PIdx = PIdx_w | PIdx_ux | PIdx_uy | PIdx_uz

record SuperParticleType =
  p_id :: int
  p_pos :: "nat \<Rightarrow> real"
  p_rdata :: "PIdx \<Rightarrow> real"

text \<open>
  Modelled from the spec: \<^verbatim>\<open>amrex::RandomEngine\<close> and \<^verbatim>\<open>amrex::Random\<close> are the
  random stream, "one draw of a uniform value from the supplied stream", with a draw
  counter. The engine state is the sequence of values the stream yields and the number of
  draws made so far; a draw returns the next value and the advanced state.
\<close>

record RandomEngine =
  stream :: "nat \<Rightarrow> real"
  draws :: nat

definition Random :: "RandomEngine \<Rightarrow> real \<times> RandomEngine" where
  "Random engine = (stream engine (draws engine), engine\<lparr>draws := Suc (draws engine)\<rparr>)"

text \<open>
  Modelled from the spec: \<^verbatim>\<open>get_particle_position\<close> reads the three position
  coordinates of the particle (three-dimensional Cartesian build).
\<close>

definition get_particle_position :: "SuperParticleType \<Rightarrow> real \<times> real \<times> real" where
  "get_particle_position p = (p_pos p 0, p_pos p 1, p_pos p 2)"

text \<open>
  Modelled from the spec: \<^verbatim>\<open>PhysConst::c\<close> is the speed of light, and
  \<^verbatim>\<open>amrex::RealBox\<close> is an axis-aligned box with a lower and an upper bound per axis,
  read through \<^verbatim>\<open>lo(d)\<close> and \<^verbatim>\<open>hi(d)\<close>. An \<^verbatim>\<open>amrex::ParserExecutor\<close> of seven
  variables is a function of seven reals.
\<close>

definition PhysConst_c :: real where
  "PhysConst_c = 299792458"

record RealBox =
  lo :: "nat \<Rightarrow> real"
  hi :: "nat \<Rightarrow> real"

type_synonym ParserExecutor7 =
  "real \<Rightarrow> real \<Rightarrow> real \<Rightarrow> real \<Rightarrow> real \<Rightarrow> real \<Rightarrow> real \<Rightarrow> real"

subsection \<open>The functors\<close>

datatype InputUnits = WarpX | SI

text \<open>
  Each functor is a record of its members, a constructor and \<^verbatim>\<open>operator()\<close>. The
  call takes the engine state and returns it with the result, so that a draw shows as a
  change of the state. The member \<^verbatim>\<open>m_is_active\<close> of the four structs carries the
  struct's name here, since record fields share one name space.
\<close>

record RandomFilter =
  RandomFilter_m_is_active :: bool
  m_fraction :: real

definition RandomFilter_ctor :: "bool \<Rightarrow> real \<Rightarrow> RandomFilter" where
  "RandomFilter_ctor a_is_active a_fraction =
     \<lparr>RandomFilter_m_is_active = a_is_active, m_fraction = a_fraction\<rparr>"

text \<open>\<^verbatim>\<open>||\<close> evaluates its right operand only when the left one is false.\<close>

definition RandomFilter_call ::
  "RandomFilter \<Rightarrow> SuperParticleType \<Rightarrow> RandomEngine \<Rightarrow> bool \<times> RandomEngine" where
  "RandomFilter_call f p engine =
     (if \<not> RandomFilter_m_is_active f then (True, engine)
      else (let (r, engine') = Random engine in (r < m_fraction f, engine')))"

record UniformFilter =
  UniformFilter_m_is_active :: bool
  m_stride :: int

definition UniformFilter_ctor :: "bool \<Rightarrow> int \<Rightarrow> UniformFilter" where
  "UniformFilter_ctor a_is_active a_stride =
     \<lparr>UniformFilter_m_is_active = a_is_active, m_stride = a_stride\<rparr>"

text \<open>
  The remainder \<^verbatim>\<open>%\<close> of C++ truncates towards zero (\<open>smod\<close>); with a zero divisor
  it is undefined behaviour, which is the outcome \<open>Inl DivisionByZero\<close>.
\<close>

datatype fault = DivisionByZero

definition UniformFilter_call ::
  "UniformFilter \<Rightarrow> SuperParticleType \<Rightarrow> RandomEngine \<Rightarrow> (fault + bool) \<times> RandomEngine" where
  "UniformFilter_call f p engine =
     (if \<not> UniformFilter_m_is_active f then (Inr True, engine)
      else if m_stride f = 0 then (Inl DivisionByZero, engine)
      else (Inr (p_id p smod m_stride f = 0), engine))"

record ParserFilter =
  ParserFilter_m_is_active :: bool
  m_function_partparser :: ParserExecutor7
  m_t :: real
  m_mass :: real
  m_units :: InputUnits

text \<open>
  The constructor reads the physical time from the simulation instance
  (\<^verbatim>\<open>WarpX::GetInstance().gett_new(0)\<close>); that time is the parameter \<open>t_new\<close>.
\<close>

definition ParserFilter_ctor :: "bool \<Rightarrow> ParserExecutor7 \<Rightarrow> real \<Rightarrow> real \<Rightarrow> ParserFilter" where
  "ParserFilter_ctor a_is_active a_filter_parser a_mass t_new =
     \<lparr>ParserFilter_m_is_active = a_is_active,
      m_function_partparser = a_filter_parser,
      m_t = t_new,
      m_mass = a_mass,
      m_units = WarpX\<rparr>"

text \<open>
  The active branch of \<^verbatim>\<open>operator()\<close> up to the call of the parser: the value the
  expression evaluates to. Division of reals by zero is 0 in HOL and an infinity or a NaN
  in the source; statements about the \<open>SI\<close> branch assume a nonzero mass.
\<close>

definition ParserFilter_eval :: "ParserFilter \<Rightarrow> SuperParticleType \<Rightarrow> real" where
  "ParserFilter_eval f p =
     (let (x, y, z) = get_particle_position p;
          ux = p_rdata p PIdx_ux / PhysConst_c;
          uy = p_rdata p PIdx_uy / PhysConst_c;
          uz = p_rdata p PIdx_uz / PhysConst_c;
          (ux, uy, uz) = (if m_units f = SI
                          then (ux / m_mass f, uy / m_mass f, uz / m_mass f)
                          else (ux, uy, uz))
      in m_function_partparser f (m_t f) x y z ux uy uz)"

definition ParserFilter_call ::
  "ParserFilter \<Rightarrow> SuperParticleType \<Rightarrow> RandomEngine \<Rightarrow> bool \<times> RandomEngine" where
  "ParserFilter_call f p engine =
     (if \<not> ParserFilter_m_is_active f then (True, engine)
      else (ParserFilter_eval f p \<noteq> 0, engine))"

record GeometryFilter =
  GeometryFilter_m_is_active :: bool
  m_domain :: RealBox

definition GeometryFilter_ctor :: "bool \<Rightarrow> RealBox \<Rightarrow> GeometryFilter" where
  "GeometryFilter_ctor a_is_active a_domain =
     \<lparr>GeometryFilter_m_is_active = a_is_active, m_domain = a_domain\<rparr>"

text \<open>\<^verbatim>\<open>AMREX_D_TERM\<close> joins one term per space dimension; three here.\<close>

definition GeometryFilter_call ::
  "GeometryFilter \<Rightarrow> SuperParticleType \<Rightarrow> RandomEngine \<Rightarrow> bool \<times> RandomEngine" where
  "GeometryFilter_call f p engine =
     (if \<not> GeometryFilter_m_is_active f then (True, engine)
      else (\<not> ((p_pos p 0 < lo (m_domain f) 0 \<or> p_pos p 0 > hi (m_domain f) 0)
              \<or> (p_pos p 1 < lo (m_domain f) 1 \<or> p_pos p 1 > hi (m_domain f) 1)
              \<or> (p_pos p 2 < lo (m_domain f) 2 \<or> p_pos p 2 > hi (m_domain f) 2)),
            engine))"

subsection \<open>A validating constructor, in the words of the specification\<close>

text \<open>
  The specification asks that a non-positive stride fails at construction with a message
  naming the parameter. This definition follows the specification, not the source; the
  source's constructor is compared with it.
\<close>

definition spec_UniformFilter_ctor :: "bool \<Rightarrow> int \<Rightarrow> string + UniformFilter" where
  "spec_UniformFilter_ctor a_is_active a_stride =
     (if a_stride \<le> 0 then Inl ''a_stride must be positive''
      else Inr \<lparr>UniformFilter_m_is_active = a_is_active, m_stride = a_stride\<rparr>)"

subsection \<open>Example particles, expressions and engines\<close>

definition particle_at :: "int \<Rightarrow> real \<Rightarrow> real \<Rightarrow> real \<Rightarrow> real \<Rightarrow> SuperParticleType" where
  "particle_at n x y z u =
     \<lparr>p_id = n,
      p_pos = (\<lambda>d. if d = 0 then x else if d = 1 then y else z),
      p_rdata = (\<lambda>a. if a = PIdx_w then 1 else u)\<rparr>"

definition expr_ux :: ParserExecutor7 where
  "expr_ux = (\<lambda>t x y z ux uy uz. ux)"


definition engine_const :: "real \<Rightarrow> RandomEngine" where
  "engine_const r = \<lparr>stream = (\<lambda>n. r), draws = 0\<rparr>"



section \<open>Properties of the coarsening stencil\<close>

subsection \<open>The loops as sums\<close>

lemma int_ivl_split: "(i::int) < n \<Longrightarrow> {i..<n} = insert i {i + 1..<n}"
  by auto

lemma Interp_loop_i_sum:
  "Interp_loop_i arr_src wx wy wz imin jmin kmin icomp numx jref kref iref c =
     c + wx * wy * wz * (\<Sum>r = iref..<numx. arr_src (imin + r) (jmin + jref) (kmin + kref) icomp)"
proof (induction arr_src wx wy wz imin jmin kmin icomp numx jref kref iref c
       rule: Interp_loop_i.induct)
  case (1 arr_src wx wy wz imin jmin kmin icomp numx jref kref iref c)
  show ?case
  proof (cases "iref < numx")
    case True
    then show ?thesis
      using "1.IH" [OF True]
      by (subst Interp_loop_i.simps) (simp add: int_ivl_split [OF True] algebra_simps)
  next
    case False
    then show ?thesis
      by (subst Interp_loop_i.simps) simp
  qed
qed

lemma Interp_loop_j_sum:
  "Interp_loop_j arr_src wx wy wz imin jmin kmin icomp numx numy kref jref c =
     c + wx * wy * wz *
       (\<Sum>q = jref..<numy. \<Sum>r = 0..<numx. arr_src (imin + r) (jmin + q) (kmin + kref) icomp)"
proof (induction arr_src wx wy wz imin jmin kmin icomp numx numy kref jref c
       rule: Interp_loop_j.induct)
  case (1 arr_src wx wy wz imin jmin kmin icomp numx numy kref jref c)
  show ?case
  proof (cases "jref < numy")
    case True
    then show ?thesis
      using "1.IH" [OF True]
      by (subst Interp_loop_j.simps)
         (simp add: int_ivl_split [OF True] Interp_loop_i_sum algebra_simps)
  next
    case False
    then show ?thesis
      by (subst Interp_loop_j.simps) simp
  qed
qed

lemma Interp_loop_k_sum:
  "Interp_loop_k arr_src wx wy wz imin jmin kmin icomp numx numy numz kref c =
     c + wx * wy * wz *
       (\<Sum>p = kref..<numz. \<Sum>q = 0..<numy. \<Sum>r = 0..<numx.
          arr_src (imin + r) (jmin + q) (kmin + p) icomp)"
proof (induction arr_src wx wy wz imin jmin kmin icomp numx numy numz kref c
       rule: Interp_loop_k.induct)
  case (1 arr_src wx wy wz imin jmin kmin icomp numx numy numz kref c)
  show ?case
  proof (cases "kref < numz")
    case True
    then show ?thesis
      using "1.IH" [OF True]
      by (subst Interp_loop_k.simps)
         (simp add: int_ivl_split [OF True] Interp_loop_j_sum algebra_simps)
  next
    case False
    then show ?thesis
      by (subst Interp_loop_k.simps) simp
  qed
qed

lemma sum_shift_int: "(\<Sum>r = 0..<n. f (a + r)) = (\<Sum>x = a..<a + n. f x)" for a n :: int
  by (rule sum.reindex_bij_witness [where i = "\<lambda>x. x - a" and j = "\<lambda>r. a + r"]) auto

text \<open>The value of \<^verbatim>\<open>Interp\<close> as a weighted sum over the index box of its loops.\<close>

lemma Interp_box_sum:
  "Interp arr_src sf sc cr i j k icomp =
     1 / real_of_int (Interp_np sf sc cr 0) * (1 / real_of_int (Interp_np sf sc cr 1))
       * (1 / real_of_int (Interp_np sf sc cr 2)) *
     (\<Sum>kk = Interp_idx_min sf sc cr (GpuArray3_of i j k) 2 ..<
              Interp_idx_min sf sc cr (GpuArray3_of i j k) 2 + Interp_np sf sc cr 2.
      \<Sum>jj = Interp_idx_min sf sc cr (GpuArray3_of i j k) 1 ..<
              Interp_idx_min sf sc cr (GpuArray3_of i j k) 1 + Interp_np sf sc cr 1.
      \<Sum>ii = Interp_idx_min sf sc cr (GpuArray3_of i j k) 0 ..<
              Interp_idx_min sf sc cr (GpuArray3_of i j k) 0 + Interp_np sf sc cr 0.
        arr_src ii jj kk icomp)"
proof -
  let ?nx = "Interp_np sf sc cr 0" and ?ny = "Interp_np sf sc cr 1"
    and ?nz = "Interp_np sf sc cr 2"
  let ?i0 = "Interp_idx_min sf sc cr (GpuArray3_of i j k) 0"
    and ?j0 = "Interp_idx_min sf sc cr (GpuArray3_of i j k) 1"
    and ?k0 = "Interp_idx_min sf sc cr (GpuArray3_of i j k) 2"
  have ic: "(\<lambda>l. if l = 0 then i else if l = 1 then j else k) = GpuArray3_of i j k"
    by (simp add: GpuArray3_of_def fun_eq_iff)
  have "(\<Sum>p = 0..<?nz. \<Sum>q = 0..<?ny. \<Sum>r = 0..<?nx. arr_src (?i0 + r) (?j0 + q) (?k0 + p) icomp)
      = (\<Sum>p = 0..<?nz. \<Sum>q = 0..<?ny. \<Sum>ii = ?i0..<?i0 + ?nx. arr_src ii (?j0 + q) (?k0 + p) icomp)"
    by (simp only: sum_shift_int [where f = "\<lambda>ii. arr_src ii _ _ icomp"])
  also have "\<dots> = (\<Sum>p = 0..<?nz. \<Sum>jj = ?j0..<?j0 + ?ny. \<Sum>ii = ?i0..<?i0 + ?nx.
                     arr_src ii jj (?k0 + p) icomp)"
    by (simp only: sum_shift_int [where f = "\<lambda>jj. \<Sum>ii = ?i0..<?i0 + ?nx. arr_src ii jj _ icomp"])
  also have "\<dots> = (\<Sum>kk = ?k0..<?k0 + ?nz. \<Sum>jj = ?j0..<?j0 + ?ny. \<Sum>ii = ?i0..<?i0 + ?nx.
                     arr_src ii jj kk icomp)"
    by (rule sum_shift_int
          [where f = "\<lambda>kk. \<Sum>jj = ?j0..<?j0 + ?ny. \<Sum>ii = ?i0..<?i0 + ?nx. arr_src ii jj kk icomp"])
  finally have box: "(\<Sum>p = 0..<?nz. \<Sum>q = 0..<?ny. \<Sum>r = 0..<?nx.
                        arr_src (?i0 + r) (?j0 + q) (?k0 + p) icomp)
      = (\<Sum>kk = ?k0..<?k0 + ?nz. \<Sum>jj = ?j0..<?j0 + ?ny. \<Sum>ii = ?i0..<?i0 + ?nx.
           arr_src ii jj kk icomp)" .
  have "Interp arr_src sf sc cr i j k icomp =
      0 + 1 / real_of_int ?nx * (1 / real_of_int ?ny) * (1 / real_of_int ?nz) *
        (\<Sum>p = 0..<?nz. \<Sum>q = 0..<?ny. \<Sum>r = 0..<?nx.
           arr_src (?i0 + r) (?j0 + q) (?k0 + p) icomp)"
    unfolding Interp_def Let_def ic by (rule Interp_loop_k_sum)
  then show ?thesis
    unfolding box by simp
qed

lemma Interp_np_spec: "Interp_np sf sc cr l = spec_np (sf l) (sc l) (cr l)"
  by (simp add: Interp_np_def spec_np_def)

lemma sdiv_2_floor: "0 \<le> c \<Longrightarrow> c sdiv 2 = \<lfloor>real_of_int c / 2\<rfloor>" for c :: int
proof -
  assume c: "0 \<le> c"
  have "\<lfloor>real_of_int c / real_of_int 2\<rfloor> = c div 2"
    by (rule floor_divide_of_int_eq)
  moreover have "c sdiv 2 = c div 2"
    using c by (simp add: signed_divide_int_def sgn_if)
  ultimately show ?thesis by simp
qed

lemma Interp_idx_min_spec:
  "1 \<le> cr l \<Longrightarrow> Interp_idx_min sf sc cr ic l = spec_idx_min (sf l) (sc l) (cr l) (ic l)"
  by (simp add: Interp_idx_min_def spec_idx_min_def sdiv_2_floor)

lemma Interp_spec_box_mean:
  assumes "1 \<le> cr 0" "1 \<le> cr 1" "1 \<le> cr 2"
  shows "Interp arr_src sf sc cr i j k icomp = spec_box_mean arr_src sf sc cr i j k icomp"
proof -
  have g: "GpuArray3_of i j k 0 = i" "GpuArray3_of i j k 1 = j" "GpuArray3_of i j k 2 = k"
    by (simp_all add: GpuArray3_of_def)
  show ?thesis
    unfolding Interp_box_sum spec_box_mean_def Let_def
      Interp_np_spec Interp_idx_min_spec [where cr = cr and l = 0, OF assms(1)]
      Interp_idx_min_spec [where cr = cr and l = 1, OF assms(2)]
      Interp_idx_min_spec [where cr = cr and l = 2, OF assms(3)] g
    by (simp add: sum_distrib_left)
qed

text \<open>
  C1. For staggerings in \<open>{0,1}\<close> and coarsening ratios at least 1 on every axis,
  \<^verbatim>\<open>Interp\<close> samples along each axis \<open>l\<close> the number of points and from the
  first index that the specification gives (one or two points), and returns the mean of
  the source values over that index box, each weighted by \<open>1/(np[0]*np[1]*np[2])\<close>.
\<close>

theorem Interp_samples_box_mean:
  assumes "\<forall>l\<in>{0, 1, 2}. sf l \<in> {0, 1} \<and> sc l \<in> {0, 1} \<and> 1 \<le> cr l"
  shows "(\<forall>l\<in>{0, 1, 2}.
            Interp_np sf sc cr l = spec_np (sf l) (sc l) (cr l) \<and>
            Interp_idx_min sf sc cr (GpuArray3_of i j k) l =
              spec_idx_min (sf l) (sc l) (cr l) (GpuArray3_of i j k l) \<and>
            spec_np (sf l) (sc l) (cr l) \<in> {1, 2})
         \<and> Interp arr_src sf sc cr i j k icomp = spec_box_mean arr_src sf sc cr i j k icomp"
proof -
  have cr: "1 \<le> cr 0" "1 \<le> cr 1" "1 \<le> cr 2"
    using assms by simp_all
  have np: "spec_np (sf l) (sc l) (cr l) \<in> {1, 2}" if "l \<in> {0, 1, 2}" for l
    using assms that by (auto simp: spec_np_def)
  have idx: "Interp_idx_min sf sc cr (GpuArray3_of i j k) l =
        spec_idx_min (sf l) (sc l) (cr l) (GpuArray3_of i j k l)" if "l \<in> {0, 1, 2}" for l
    using assms that by (intro Interp_idx_min_spec) auto
  have per: "Interp_np sf sc cr l = spec_np (sf l) (sc l) (cr l) \<and>
        Interp_idx_min sf sc cr (GpuArray3_of i j k) l =
          spec_idx_min (sf l) (sc l) (cr l) (GpuArray3_of i j k l) \<and>
        spec_np (sf l) (sc l) (cr l) \<in> {1, 2}" if "l \<in> {0, 1, 2}" for l
    using np [OF that] idx [OF that] by (simp only: Interp_np_spec simp_thms)
  have every: "\<forall>l\<in>{0, 1, 2}.
        Interp_np sf sc cr l = spec_np (sf l) (sc l) (cr l) \<and>
        Interp_idx_min sf sc cr (GpuArray3_of i j k) l =
          spec_idx_min (sf l) (sc l) (cr l) (GpuArray3_of i j k l) \<and>
        spec_np (sf l) (sc l) (cr l) \<in> {1, 2}"
    by (rule ballI) (rule per)
  show ?thesis
    by (rule conjI [OF every Interp_spec_box_mean [OF cr]])
qed

theorem Interp_samples_box_mean_witness:
  "Interp index_field (GpuArray3_of 0 1 0) (GpuArray3_of 1 1 0) (GpuArray3_of 1 2 4) 1 2 3 0
     = 2781 / 2"
proof -
  have h: "\<forall>l\<in>{0, 1, 2}. GpuArray3_of 0 1 0 l \<in> {0, 1} \<and> GpuArray3_of 1 1 0 l \<in> {0, 1}
        \<and> 1 \<le> GpuArray3_of 1 2 4 l"
    by (simp add: GpuArray3_of_def)
  have "Interp index_field (GpuArray3_of 0 1 0) (GpuArray3_of 1 1 0) (GpuArray3_of 1 2 4) 1 2 3 0
      = spec_box_mean index_field (GpuArray3_of 0 1 0) (GpuArray3_of 1 1 0) (GpuArray3_of 1 2 4) 1 2 3 0"
    using Interp_samples_box_mean [OF h, of 1 2 3 index_field 0] by simp
  also have "\<dots> = 2781 / 2"
  proof -
    have ivl: "{0..<2::int} = {0, 1}" "{4..<5::int} = {4}" "{13..<15::int} = {13, 14}"
      by auto
    show ?thesis
      by (simp add: spec_box_mean_def spec_np_def spec_idx_min_def GpuArray3_of_def
          index_field_def ivl)
  qed
  finally show ?thesis .
qed


subsection \<open>Number of points under coarsening\<close>

lemma sdiv_numeral_simps: "(4::int) sdiv 2 = 2" "(2::int) sdiv 2 = 1"
  by (simp_all add: signed_divide_int_def)

text \<open>
  C2, as stated, at ratio 4 along x with a cell-centred source: the loop along x runs over
  2 points, not 4. The fine planes 0 and 3 of the coarse cell carry weight 0, the planes 1
  and 2 carry weight 1/2.
\<close>

theorem Interp_ratio_four_counterexample:
  "Interp_np (GpuArray3_of 0 0 0) (GpuArray3_of 0 0 0) (GpuArray3_of 4 1 1) 0
     \<noteq> GpuArray3_of 4 1 1 0
   \<and> Interp (plane_field 0) (GpuArray3_of 0 0 0) (GpuArray3_of 0 0 0) (GpuArray3_of 4 1 1) 0 0 0 0 = 0
   \<and> Interp (plane_field 1) (GpuArray3_of 0 0 0) (GpuArray3_of 0 0 0) (GpuArray3_of 4 1 1) 0 0 0 0 = 1 / 2
   \<and> Interp (plane_field 2) (GpuArray3_of 0 0 0) (GpuArray3_of 0 0 0) (GpuArray3_of 4 1 1) 0 0 0 0 = 1 / 2
   \<and> Interp (plane_field 3) (GpuArray3_of 0 0 0) (GpuArray3_of 0 0 0) (GpuArray3_of 4 1 1) 0 0 0 0 = 0"
proof -
  have ivl: "{1..<3::int} = {1, 2}" "{0..<1::int} = {0}"
    by auto
  show ?thesis
    by (simp add: Interp_box_sum Interp_np_def Interp_idx_min_def GpuArray3_of_def
        plane_field_def sdiv_numeral_simps ivl)
qed

text \<open>
  C2, amended. \<^verbatim>\<open>Interp\<close> is the weighted sum over the index box whose extent along
  axis \<open>l\<close> is \<open>Interp_np sf sc cr l\<close>; for an axis with ratio above 1 that extent is
  1 when the source is face- or edge-centred on the axis and 2 when it is cell-centred
  (which is \<open>cr l\<close> only at ratio 2).
\<close>

theorem Interp_ratio_points:
  "Interp arr_src sf sc cr i j k icomp =
     1 / real_of_int (Interp_np sf sc cr 0) * (1 / real_of_int (Interp_np sf sc cr 1))
       * (1 / real_of_int (Interp_np sf sc cr 2)) *
     (\<Sum>kk = Interp_idx_min sf sc cr (GpuArray3_of i j k) 2 ..<
              Interp_idx_min sf sc cr (GpuArray3_of i j k) 2 + Interp_np sf sc cr 2.
      \<Sum>jj = Interp_idx_min sf sc cr (GpuArray3_of i j k) 1 ..<
              Interp_idx_min sf sc cr (GpuArray3_of i j k) 1 + Interp_np sf sc cr 1.
      \<Sum>ii = Interp_idx_min sf sc cr (GpuArray3_of i j k) 0 ..<
              Interp_idx_min sf sc cr (GpuArray3_of i j k) 0 + Interp_np sf sc cr 0.
        arr_src ii jj kk icomp)
   \<and> (1 < cr l \<and> sf l = 1 \<longrightarrow> Interp_np sf sc cr l = 1)
   \<and> (1 < cr l \<and> sf l = 0 \<longrightarrow> Interp_np sf sc cr l = 2)"
  using Interp_box_sum [of arr_src sf sc cr i j k icomp]
  by (simp add: Interp_np_def)

theorem Interp_ratio_points_witness:
  "Interp_np (GpuArray3_of 0 1 0) (GpuArray3_of 0 0 0) (GpuArray3_of 4 3 1) 0 = 2
   \<and> Interp_np (GpuArray3_of 0 1 0) (GpuArray3_of 0 0 0) (GpuArray3_of 4 3 1) 1 = 1"
  using Interp_ratio_points [of _ "GpuArray3_of 0 1 0" "GpuArray3_of 0 0 0" "GpuArray3_of 4 3 1" _ _ _ _ 0]
    Interp_ratio_points [of _ "GpuArray3_of 0 1 0" "GpuArray3_of 0 0 0" "GpuArray3_of 4 3 1" _ _ _ _ 1]
  by (simp add: GpuArray3_of_def)

subsection \<open>Weights and constant fields\<close>








section \<open>Properties of the particle filters\<close>

subsection \<open>Inactive filters\<close>

text \<open>
  C4. A filter constructed with \<open>a_is_active = False\<close> returns true for every particle
  and every engine state and hands the engine back unchanged; in particular the inactive
  \<^verbatim>\<open>RandomFilter\<close> leaves the draw counter as it was.
\<close>

theorem inactive_filter_selects_without_draw:
  "RandomFilter_call (RandomFilter_ctor False a_fraction) p engine = (True, engine)
   \<and> draws (snd (RandomFilter_call (RandomFilter_ctor False a_fraction) p engine)) = draws engine
   \<and> UniformFilter_call (UniformFilter_ctor False a_stride) p engine = (Inr True, engine)
   \<and> ParserFilter_call (ParserFilter_ctor False a_filter_parser a_mass t_new) p engine
       = (True, engine)
   \<and> GeometryFilter_call (GeometryFilter_ctor False a_domain) p engine = (True, engine)"
  by (simp add: RandomFilter_call_def RandomFilter_ctor_def UniformFilter_call_def
      UniformFilter_ctor_def ParserFilter_call_def ParserFilter_ctor_def
      GeometryFilter_call_def GeometryFilter_ctor_def)

subsection \<open>The uniform filter\<close>

lemma smod_eq_0_iff: "l \<noteq> 0 \<Longrightarrow> (k smod l = 0) = (k mod l = 0)" for k l :: int
proof -
  assume l: "l \<noteq> 0"
  have "(k smod l = 0) = (k = 0 \<or> \<bar>k\<bar> mod \<bar>l\<bar> = 0)"
    by (simp add: signed_modulo_int_def sgn_0_0)
  also have "\<dots> = (\<bar>l\<bar> dvd \<bar>k\<bar>)"
    by (auto simp: mod_eq_0_iff_dvd)
  also have "\<dots> = (k mod l = 0)"
    by (simp add: mod_eq_0_iff_dvd)
  finally show ?thesis .
qed

lemma smod_eq_0_iff_dvd: "l \<noteq> 0 \<Longrightarrow> (k smod l = 0) = (l dvd k)" for k l :: int
  by (simp add: smod_eq_0_iff mod_eq_0_iff_dvd)

text \<open>
  C5, as stated, at stride 0 and at stride -3: the constructor returns a filter holding the
  stride, where a validating constructor returns an error. With stride 0 the failure comes
  at the call (remainder by zero); with stride -3 the call selects the multiples of 3.
\<close>

theorem UniformFilter_ctor_nonpositive_counterexample:
  "spec_UniformFilter_ctor True 0 \<noteq> Inr (UniformFilter_ctor True 0)
   \<and> m_stride (UniformFilter_ctor True 0) = 0
   \<and> UniformFilter_call (UniformFilter_ctor True 0) (particle_at 3 0 0 0 0) (engine_const 0)
       = (Inl DivisionByZero, engine_const 0)
   \<and> m_stride (UniformFilter_ctor True (- 3)) = - 3
   \<and> UniformFilter_call (UniformFilter_ctor True (- 3)) (particle_at 3 0 0 0 0) (engine_const 0)
       = (Inr True, engine_const 0)"
  by (simp add: spec_UniformFilter_ctor_def UniformFilter_ctor_def UniformFilter_call_def
      particle_at_def signed_modulo_int_def)

text \<open>
  C5, amended. The constructor of \<^verbatim>\<open>UniformFilter\<close> performs no validation and never
  fails: for every stride it returns the filter holding the flag and the stride unchanged,
  and it agrees with a validating constructor exactly for the positive strides. The active
  filter it returns selects the ids that the stride divides when the stride is not 0, and
  takes a remainder by zero at the call when it is.
\<close>

theorem UniformFilter_ctor_unchecked:
  "UniformFilter_ctor a_is_active a_stride
     = \<lparr>UniformFilter_m_is_active = a_is_active, m_stride = a_stride\<rparr>
   \<and> (spec_UniformFilter_ctor a_is_active a_stride
         = Inr (UniformFilter_ctor a_is_active a_stride)) = (0 < a_stride)
   \<and> UniformFilter_call (UniformFilter_ctor True a_stride) p engine
       = (if a_stride = 0 then Inl DivisionByZero else Inr (a_stride dvd p_id p), engine)"
  by (auto simp add: spec_UniformFilter_ctor_def UniformFilter_ctor_def UniformFilter_call_def
      smod_eq_0_iff_dvd)

text \<open>
  C6. An active \<^verbatim>\<open>UniformFilter\<close> with a positive stride selects a particle if and
  only if its id is 0 modulo the stride; with stride 3 the ids 0 to 6 give the pattern
  T, F, F, T, F, F, T.
\<close>

theorem UniformFilter_selects_multiples:
  assumes "0 < a_stride"
  shows "UniformFilter_call (UniformFilter_ctor True a_stride) p engine
           = (Inr (p_id p mod a_stride = 0), engine)
         \<and> map (\<lambda>n. fst (UniformFilter_call (UniformFilter_ctor True 3) (p\<lparr>p_id := n\<rparr>) engine))
               [0, 1, 2, 3, 4, 5, 6]
             = [Inr True, Inr False, Inr False, Inr True, Inr False, Inr False, Inr True]"
  using assms
  by (simp add: UniformFilter_call_def UniformFilter_ctor_def smod_eq_0_iff)

theorem UniformFilter_selects_multiples_witness:
  "UniformFilter_call (UniformFilter_ctor True 3) (particle_at 6 0 0 0 0) (engine_const 0)
     = (Inr True, engine_const 0)
   \<and> UniformFilter_call (UniformFilter_ctor True 3) (particle_at 7 0 0 0 0) (engine_const 0)
     = (Inr False, engine_const 0)"
  using UniformFilter_selects_multiples [of 3 "particle_at 6 0 0 0 0" "engine_const 0"]
    UniformFilter_selects_multiples [of 3 "particle_at 7 0 0 0 0" "engine_const 0"]
  by (simp add: particle_at_def)

subsection \<open>The expression filter\<close>





text \<open>
  C9. Whatever the arguments, the constructor of \<^verbatim>\<open>ParserFilter\<close> sets the unit mode
  \<open>WarpX\<close>, so a freshly constructed filter evaluates the expression on the momentum
  slots divided by \<open>c\<close> only, without the mass; the division by the mass shows only
  after \<open>m_units\<close> has been set to \<open>SI\<close> on the constructed filter.
\<close>

theorem ParserFilter_ctor_units_WarpX:
  "m_units (ParserFilter_ctor a_is_active a_filter_parser a_mass t_new) = WarpX
   \<and> ParserFilter_eval (ParserFilter_ctor a_is_active a_filter_parser a_mass t_new) p
       = a_filter_parser t_new (p_pos p 0) (p_pos p 1) (p_pos p 2)
           (p_rdata p PIdx_ux / PhysConst_c) (p_rdata p PIdx_uy / PhysConst_c)
           (p_rdata p PIdx_uz / PhysConst_c)
   \<and> ParserFilter_eval (ParserFilter_ctor True expr_ux 2 0) (particle_at 1 0 0 0 299792458) = 1
   \<and> ParserFilter_eval ((ParserFilter_ctor True expr_ux 2 0)\<lparr>m_units := SI\<rparr>)
         (particle_at 1 0 0 0 299792458) = 1 / 2"
  by (simp add: ParserFilter_ctor_def ParserFilter_eval_def get_particle_position_def
      particle_at_def expr_ux_def PhysConst_c_def)

subsection \<open>The geometry filter\<close>


subsection \<open>Use of the random engine\<close>

text \<open>
  C10. The results of \<^verbatim>\<open>UniformFilter\<close>, \<^verbatim>\<open>ParserFilter\<close> and
  \<^verbatim>\<open>GeometryFilter\<close> are the same for any two engine states and each hands the engine
  back unchanged; an active \<^verbatim>\<open>RandomFilter\<close> compares the next value of the stream
  with its fraction and advances the draw counter by one, so its result differs between
  engine states.
\<close>

theorem only_RandomFilter_reads_engine:
  "fst (UniformFilter_call uf p e1) = fst (UniformFilter_call uf p e2)
   \<and> snd (UniformFilter_call uf p e1) = e1
   \<and> fst (ParserFilter_call pf p e1) = fst (ParserFilter_call pf p e2)
   \<and> snd (ParserFilter_call pf p e1) = e1
   \<and> fst (GeometryFilter_call gf p e1) = fst (GeometryFilter_call gf p e2)
   \<and> snd (GeometryFilter_call gf p e1) = e1
   \<and> RandomFilter_call (RandomFilter_ctor True a_fraction) p e1
       = (stream e1 (draws e1) < a_fraction, e1\<lparr>draws := Suc (draws e1)\<rparr>)
   \<and> fst (RandomFilter_call (RandomFilter_ctor True (1 / 2)) p (engine_const 0))
       \<noteq> fst (RandomFilter_call (RandomFilter_ctor True (1 / 2)) p (engine_const (3 / 4)))"
  by (simp add: UniformFilter_call_def ParserFilter_call_def GeometryFilter_call_def
      RandomFilter_call_def RandomFilter_ctor_def Random_def engine_const_def)

end
